theory Spec2Isabelle
  imports Main "HOL-Library.AList"
begin

section \<open>Python values, strings and exceptions\<close>

text \<open>
  The views of \<^verbatim>\<open>invenio_administration\<close> are Python classes whose attributes are
  either \<^verbatim>\<open>None\<close> or a string; such an attribute is a \<open>string option\<close>. A raised
  exception is the left summand of the result type \<open>error + 'a\<close>.
\<close>

datatype error =
    AttributeError string
  | KeyError "string option"
  | TypeError string
  | IndexError
  | InvalidResource string string
  | Exception string
  | ValueError string

text \<open>
  \<open>AttributeError a\<close>: attribute \<open>a\<close> was read on \<^verbatim>\<open>None\<close>. \<open>KeyError k\<close>: key \<open>k\<close> is
  missing from a dictionary. \<open>InvalidResource r v\<close> is the exception of
  \<^verbatim>\<open>invenio_administration.errors\<close>, built in the source with the keyword arguments
  \<^verbatim>\<open>resource=r, view=v\<close>. \<open>Exception m\<close> is the builtin exception with message \<open>m\<close>,
  \<open>ValueError m\<close> the one Flask raises for a rule it refuses.
\<close>

type_synonym pydict = "(string \<times> string) list"

text \<open>Truthiness of \<^verbatim>\<open>None\<close>, of a string and of a dictionary.\<close>

fun truthy :: "string option \<Rightarrow> bool" where
  "truthy None = False"
| "truthy (Some s) = (s \<noteq> [])"

definition truthy_dict :: "pydict \<Rightarrow> bool" where
  "truthy_dict d = (d \<noteq> [])"

text \<open>\<^verbatim>\<open>str(x)\<close>, as used by \<^verbatim>\<open>%s\<close> and by f-strings.\<close>

fun py_str :: "string option \<Rightarrow> string" where
  "py_str None = ''None''"
| "py_str (Some s) = s"

text \<open>\<^verbatim>\<open>str.lower\<close> and \<^verbatim>\<open>str.upper\<close> on ASCII text; other bytes are left as they are.\<close>

definition lower_char :: "char \<Rightarrow> char" where
  "lower_char c =
     (let n = (of_char c :: nat) in if 65 \<le> n \<and> n \<le> 90 then char_of (n + 32) else c)"

definition upper_char :: "char \<Rightarrow> char" where
  "upper_char c =
     (let n = (of_char c :: nat) in if 97 \<le> n \<and> n \<le> 122 then char_of (n - 32) else c)"

definition lower :: "string \<Rightarrow> string" where
  "lower s = map lower_char s"

definition upper :: "string \<Rightarrow> string" where
  "upper s = map upper_char s"

definition startswith :: "string \<Rightarrow> string \<Rightarrow> bool" where
  "startswith s p = (take (length p) s = p)"


section \<open>The view registry: \<^verbatim>\<open>admin.py\<close>\<close>

text \<open>
  A Flask blueprint records the URL rules added to it, in order. The menu
  (\<^verbatim>\<open>AdminMenu\<close>) is a value of a type \<open>'m\<close>; view callables are of a type \<open>'f\<close>.
\<close>

record 'f blueprint =
  bp_name :: string
  url_prefix :: string
  url_rules :: "(string option \<times> 'f) list"

record ('f, 'm) administration =
  views :: "'f list"
  menu :: 'm
  menu_key :: string
  admin_name :: string
  dashboard_view_class :: "string option"
  admin_endpoint :: string
  admin_url :: string
  base_template :: string
  blueprint :: "'f blueprint"

text \<open>
  \<open>views\<close> is \<^verbatim>\<open>_views\<close>, \<open>menu\<close> is \<^verbatim>\<open>_menu\<close>; \<open>admin_name\<close>, \<open>admin_endpoint\<close> and
  \<open>admin_url\<close> are the registry's \<^verbatim>\<open>name\<close>, \<^verbatim>\<open>endpoint\<close> and \<^verbatim>\<open>url\<close>. A class is
  identified by its name, so \<open>dashboard_view_class\<close> holds the name of the class loaded
  from \<^verbatim>\<open>ADMINISTRATION_DASHBOARD_VIEW\<close>.
\<close>


section \<open>The base view: \<^verbatim>\<open>views/base.py\<close>\<close>

text \<open>
  The class-level attributes of a view class. \<open>class_name\<close> is \<^verbatim>\<open>__name__\<close>, \<open>mro\<close> the
  names of the class and of all its bases; \<open>c_get\<close> is the \<^verbatim>\<open>get\<close> attribute (the name of
  the handler, or \<^verbatim>\<open>None\<close>).
\<close>

record view_class =
  class_name :: string
  mro :: "string list"
  c_extension :: "string option"
  c_name :: "string option"
  c_category :: "string option"
  c_endpoint :: "string option"
  c_template :: string
  c_url :: "string option"
  c_get :: "string option"

definition AdminBaseView :: view_class where
  "AdminBaseView =
     \<lparr>class_name = ''AdminBaseView'',
      mro = [''AdminBaseView'', ''MethodView'', ''View'', ''object''],
      c_extension = None,
      c_name = None,
      c_category = None,
      c_endpoint = None,
      c_template = ''invenio_administration/index.html'',
      c_url = None,
      c_get = Some ''AdminBaseView.get''\<rparr>"

text \<open>
  An instance: its class and the attributes set on the instance itself. An attribute
  the constructor has not assigned yet is read from the class.
\<close>

record ('c, 'f, 'm) view_instance =
  cls :: 'c
  extension :: "string option"
  name :: "string option"
  category :: "string option"
  endpoint :: "string option"
  url :: "string option"
  administration :: "('f, 'm) administration option"

definition isinstance :: "('z view_class_scheme, 'f, 'm) view_instance \<Rightarrow> string \<Rightarrow> bool" where
  "isinstance self c = (c \<in> set (mro (cls self)))"

definition endpoint_location_name ::
  "('z view_class_scheme, 'f, 'm) view_instance \<Rightarrow> string option" where
  "endpoint_location_name self =
     (case administration self of
        None \<Rightarrow> endpoint self
      | Some a \<Rightarrow> Some (admin_endpoint a @ ''.'' @ py_str (endpoint self)))"

text \<open>\<^verbatim>\<open>_get_endpoint\<close>: the function returns \<^verbatim>\<open>None\<close> when no branch returns.\<close>

definition get_endpoint ::
  "('z view_class_scheme, 'f, 'm) view_instance \<Rightarrow> string option \<Rightarrow> error + string option" where
  "get_endpoint self endpoint_arg =
     (if truthy endpoint_arg then Inr endpoint_arg
      else if \<not> truthy (endpoint self) then
        (case name self of
           None \<Rightarrow> Inl (AttributeError ''lower'')
         | Some n \<Rightarrow> Inr (Some (lower n)))
      else Inr None)"

definition get_view_url ::
  "('z view_class_scheme, 'f, 'm) view_instance \<Rightarrow> string option \<Rightarrow> error + string" where
  "get_view_url self url_arg =
     (case url_arg of
        None \<Rightarrow>
          (case administration self of
             None \<Rightarrow> Inl (AttributeError ''dashboard_view_class'')
           | Some a \<Rightarrow>
               (case dashboard_view_class a of
                  None \<Rightarrow> Inl (TypeError ''isinstance() arg 2 must be a type'')
                | Some d \<Rightarrow>
                    if isinstance self d then Inr ''/''
                    else Inr (''/'' @ py_str (endpoint self))))
      | Some u \<Rightarrow>
          if \<not> startswith u ''/'' then
            (case administration self of
               None \<Rightarrow> Inl (AttributeError ''url'')
             | Some a \<Rightarrow> Inr (admin_url a @ ''/'' @ u))
          else Inr u)"

definition no_get_message :: "string \<Rightarrow> string" where
  "no_get_message c =
     ''Cannot instantiate administration view'' @ '' '' @ c @ '' '' @ ''without a default GET view''"

text \<open>
  \<^verbatim>\<open>AdminBaseView.__init__\<close>. Its first statements assign \<^verbatim>\<open>_extension\<close>,
  \<^verbatim>\<open>name\<close>, \<^verbatim>\<open>category\<close> and \<^verbatim>\<open>administration\<close>; \<^verbatim>\<open>endpoint\<close> and \<^verbatim>\<open>url\<close> are
  still those of the class then.
\<close>

definition assign_attributes ::
  "'z view_class_scheme \<Rightarrow> string option \<Rightarrow> string option \<Rightarrow> string option \<Rightarrow>
   ('f, 'm) administration option \<Rightarrow> ('z view_class_scheme, 'f, 'm) view_instance" where
  "assign_attributes c name_arg category_arg extension_arg admin =
     \<lparr>cls = c,
      extension = (if c_extension c = None then extension_arg else c_extension c),
      name = (if c_name c = None then name_arg else c_name c),
      category = (if c_category c = None then category_arg else c_category c),
      endpoint = c_endpoint c,
      url = c_url c,
      administration = admin\<rparr>"

definition init ::
  "'z view_class_scheme \<Rightarrow> string option \<Rightarrow> string option \<Rightarrow> string option \<Rightarrow> string option \<Rightarrow>
   string option \<Rightarrow> ('f, 'm) administration option \<Rightarrow>
   error + ('z view_class_scheme, 'f, 'm) view_instance" where
  "init c name_arg category_arg endpoint_arg url_arg extension_arg admin =
     (let self = assign_attributes c name_arg category_arg extension_arg admin
      in case get_endpoint self endpoint_arg of
           Inl e \<Rightarrow> Inl e
         | Inr ep \<Rightarrow>
             (let self = self\<lparr>endpoint := ep\<rparr>
              in case (if truthy url_arg then Inr url_arg
                       else (case get_view_url self (url self) of
                               Inl e \<Rightarrow> Inl e
                             | Inr u \<Rightarrow> Inr (Some u))) of
                   Inl e \<Rightarrow> Inl e
                 | Inr u \<Rightarrow>
                     (let self = self\<lparr>url := u\<rparr>
                      in if c_get (cls self) = None
                         then Inl (Exception (no_get_message (class_name (cls self))))
                         else Inr self)))"

text \<open>\<^verbatim>\<open>_get_template\<close> and \<^verbatim>\<open>render\<close>: the template and the context handed to Flask.\<close>

record search_config =
  kw_config_name :: string
  kw_available_facets :: pydict
  kw_sort_options :: pydict
  kw_endpoint :: string
  kw_headers :: pydict

datatype ('s, 'j) ctx_value =
    CtxStr string
  | CtxJson 'j
  | CtxSchema 's
  | CtxSearch search_config
  | CtxColumns "pydict option"

record ('s, 'j) rendered =
  template :: string
  template_context :: "(string \<times> ('s, 'j) ctx_value) list"

definition get_template :: "('z view_class_scheme, 'f, 'm) view_instance \<Rightarrow> string" where
  "get_template self = c_template (cls self)"

definition render ::
  "('z view_class_scheme, 'f, 'm) view_instance \<Rightarrow> (string \<times> ('s, 'j) ctx_value) list \<Rightarrow>
   error + ('s, 'j) rendered" where
  "render self kwargs =
     (case administration self of
        None \<Rightarrow> Inl (AttributeError ''base_template'')
      | Some a \<Rightarrow>
          Inr \<lparr>template = get_template self,
               template_context = AList.update ''admin_base_template'' (CtxStr (base_template a)) kwargs\<rparr>)"

definition AdminBaseView_get ::
  "('z view_class_scheme, 'f, 'm) view_instance \<Rightarrow> error + ('s, 'j) rendered" where
  "AdminBaseView_get self = render self []"


section \<open>Resource-bound views\<close>

text \<open>
  A resource belongs to another package. The views read its service schema
  (\<^verbatim>\<open>resource.service.schema.schema()\<close>), the search configuration of its service and
  the blueprint name of its configuration.
\<close>

record 's resource =
  service_schema :: 's
  search_sort_options :: pydict
  search_facets :: pydict
  config_blueprint_name :: string

text \<open>
  The Flask application: its extensions (each a table from attribute names to
  resources), its configuration and the rules of the URL map mounted at \<^verbatim>\<open>/api\<close>.
\<close>

record 's flask_app =
  extensions :: "string \<Rightarrow> (string \<Rightarrow> 's resource option) option"
  config :: "string \<Rightarrow> pydict option"
  api_mount :: "(string \<Rightarrow> string list option) option"

record 's resource_view_class = view_class +
  display_edit :: bool
  display_delete :: bool
  resource_config :: "string option"
  resource :: "'s resource option"
  actions :: pydict
  schema :: "'s option"

definition no_extension_message :: "string \<Rightarrow> string" where
  "no_extension_message c =
     ''Cannot instanciate resource view '' @ c @ '' '' @ ''without an associated flask extension.''"

definition no_resource_message :: "string \<Rightarrow> string" where
  "no_resource_message c =
     ''Cannot instanciate resource view '' @ c @ '' '' @ ''without a resource.''"

text \<open>\<^verbatim>\<open>AdminResourceBaseView.__init__\<close>.\<close>

definition resource_init ::
  "('s, 'z) resource_view_class_scheme \<Rightarrow> string option \<Rightarrow> string option \<Rightarrow> string option \<Rightarrow>
   string option \<Rightarrow> string option \<Rightarrow> ('f, 'm) administration option \<Rightarrow>
   error + (('s, 'z) resource_view_class_scheme, 'f, 'm) view_instance" where
  "resource_init c name_arg category_arg endpoint_arg url_arg extension_arg admin =
     (case init c name_arg category_arg endpoint_arg url_arg extension_arg admin of
        Inl e \<Rightarrow> Inl e
      | Inr self \<Rightarrow>
          if extension self = None
          then Inl (Exception (no_extension_message (class_name (cls self))))
          else if resource_config (cls self) = None
          then Inl (Exception (no_resource_message (class_name (cls self))))
          else Inr self)"

definition get_view_extension ::
  "'s flask_app \<Rightarrow> 'z view_class_scheme \<Rightarrow> string option \<Rightarrow>
   error + (string \<Rightarrow> 's resource option)" where
  "get_view_extension app c extension_arg =
     (let key = (if truthy extension_arg then extension_arg else c_extension c)
      in case key of
           None \<Rightarrow> Inl (KeyError None)
         | Some k \<Rightarrow>
             (case extensions app k of
                None \<Rightarrow> Inl (KeyError (Some k))
              | Some ext \<Rightarrow> Inr ext))"

definition get_resource ::
  "'s flask_app \<Rightarrow> ('s, 'z) resource_view_class_scheme \<Rightarrow> string option \<Rightarrow>
   error + 's resource" where
  "get_resource app c extension_arg =
     (case get_view_extension app c extension_arg of
        Inl e \<Rightarrow> Inl e
      | Inr ext \<Rightarrow>
          (case resource_config c of
             None \<Rightarrow> Inl (TypeError ''attribute name must be string'')
           | Some rc \<Rightarrow>
               (case ext rc of
                  None \<Rightarrow> Inl (InvalidResource rc (class_name c))
                | Some r \<Rightarrow> Inr r)))"

definition set_resource ::
  "'s flask_app \<Rightarrow> ('s, 'z) resource_view_class_scheme \<Rightarrow> string option \<Rightarrow>
   error + ('s, 'z) resource_view_class_scheme" where
  "set_resource app c extension_arg =
     (case get_resource app c extension_arg of
        Inl e \<Rightarrow> Inl e
      | Inr r \<Rightarrow> Inr (c\<lparr>resource := Some r\<rparr>))"

definition get_service_schema :: "('s, 'z) resource_view_class_scheme \<Rightarrow> error + 's" where
  "get_service_schema c =
     (case resource c of
        None \<Rightarrow> Inl (AttributeError ''service'')
      | Some r \<Rightarrow> Inr (service_schema r))"

definition set_schema ::
  "('s, 'z) resource_view_class_scheme \<Rightarrow> error + ('s, 'z) resource_view_class_scheme" where
  "set_schema c =
     (case get_service_schema c of
        Inl e \<Rightarrow> Inl e
      | Inr s \<Rightarrow> Inr (c\<lparr>schema := Some s\<rparr>))"

text \<open>
  \<^verbatim>\<open>_schema_to_json\<close> calls \<^verbatim>\<open>jsonify_schema\<close> of \<^verbatim>\<open>marshmallow_utils\<close>, a parameter
  here.
\<close>

definition schema_to_json ::
  "('s \<Rightarrow> 'j) \<Rightarrow> (('s, 'z) resource_view_class_scheme, 'f, 'm) view_instance \<Rightarrow> 's \<Rightarrow> 'j" where
  "schema_to_json jsonify_schema self s = jsonify_schema s"


subsection \<open>The detail view\<close>

record 's detail_view_class = "'s resource_view_class" +
  item_field_exclude_list :: "string list option"
  item_field_list :: "string list option"

definition AdminResourceDetailView_get ::
  "('s \<Rightarrow> 'j) \<Rightarrow> (('s, 'z) detail_view_class_scheme, 'f, 'm) view_instance \<Rightarrow> string option \<Rightarrow>
   error + ('s, 'j) rendered" where
  "AdminResourceDetailView_get jsonify_schema self pid_value =
     (case get_service_schema (cls self) of
        Inl e \<Rightarrow> Inl e
      | Inr s \<Rightarrow>
          (let serialize_schema = schema_to_json jsonify_schema self s
           in render self [(''schema'', CtxJson serialize_schema)]))"


subsection \<open>The list view\<close>

record 's list_view_class = "'s resource_view_class" +
  display_create :: bool
  display_read :: bool
  search_config_name :: "string option"
  search_facets_config_name :: "string option"
  search_sort_config_name :: "string option"
  sort_options :: pydict
  available_facets :: pydict
  column_exclude_list :: "string list option"
  columns :: "pydict option"
  search_api_endpoint :: "string option"
  search_request_headers :: pydict

definition get_search_request_headers ::
  "(('s, 'z) list_view_class_scheme, 'f, 'm) view_instance \<Rightarrow> pydict" where
  "get_search_request_headers self = search_request_headers (cls self)"

definition get_search_app_name ::
  "(('s, 'z) list_view_class_scheme, 'f, 'm) view_instance \<Rightarrow> error + string" where
  "get_search_app_name self =
     (case search_config_name (cls self) of
        None \<Rightarrow>
          (case name self of
             None \<Rightarrow> Inl (AttributeError ''upper'')
           | Some n \<Rightarrow> Inr (upper n @ ''_SEARCH''))
      | Some n \<Rightarrow> Inr n)"

text \<open>
  \<^verbatim>\<open>current_app.wsgi_app.app.mounts["/api"].url_map._rules_by_endpoint[name][0].rule\<close>.
\<close>

definition mounted_api_rule :: "'s flask_app \<Rightarrow> string \<Rightarrow> error + string" where
  "mounted_api_rule app blueprint_name =
     (case api_mount app of
        None \<Rightarrow> Inl (KeyError (Some ''/api''))
      | Some rules \<Rightarrow>
          (case rules blueprint_name of
             None \<Rightarrow> Inl (KeyError (Some blueprint_name))
           | Some [] \<Rightarrow> Inl IndexError
           | Some (r # _) \<Rightarrow> Inr r))"

definition get_search_api_endpoint ::
  "'s flask_app \<Rightarrow> (('s, 'z) list_view_class_scheme, 'f, 'm) view_instance \<Rightarrow> error + string" where
  "get_search_api_endpoint app self =
     (case resource (cls self) of
        None \<Rightarrow> Inl (AttributeError ''config'')
      | Some r \<Rightarrow>
          (let blueprint_name = config_blueprint_name r @ ''.search''
           in if truthy (search_api_endpoint (cls self))
              then Inr (py_str (search_api_endpoint (cls self)))
              else (case mounted_api_rule app blueprint_name of
                      Inl e \<Rightarrow> Inl e
                    | Inr blueprint_rule \<Rightarrow> Inr (''/api/'' @ blueprint_rule))))"

text \<open>\<^verbatim>\<open>current_app.config[key]\<close>.\<close>

definition config_lookup :: "'s flask_app \<Rightarrow> string option \<Rightarrow> error + pydict" where
  "config_lookup app key =
     (case key of
        None \<Rightarrow> Inl (KeyError None)
      | Some k \<Rightarrow>
          (case config app k of
             None \<Rightarrow> Inl (KeyError (Some k))
           | Some v \<Rightarrow> Inr v))"

text \<open>
  \<^verbatim>\<open>init_search_config\<close>: the keyword arguments bound to \<^verbatim>\<open>search_app_config\<close>,
  evaluated from left to right.
\<close>

definition init_search_config ::
  "'s flask_app \<Rightarrow> (('s, 'z) list_view_class_scheme, 'f, 'm) view_instance \<Rightarrow>
   error + search_config" where
  "init_search_config app self =
     (case get_search_app_name self of
        Inl e \<Rightarrow> Inl e
      | Inr n \<Rightarrow>
     (case config_lookup app (search_facets_config_name (cls self)) of
        Inl e \<Rightarrow> Inl e
      | Inr fs \<Rightarrow>
     (case config_lookup app (search_sort_config_name (cls self)) of
        Inl e \<Rightarrow> Inl e
      | Inr so \<Rightarrow>
     (case get_search_api_endpoint app self of
        Inl e \<Rightarrow> Inl e
      | Inr ep \<Rightarrow>
          Inr \<lparr>kw_config_name = n,
               kw_available_facets = fs,
               kw_sort_options = so,
               kw_endpoint = ep,
               kw_headers = get_search_request_headers self\<rparr>))))"

definition get_sort_options ::
  "(('s, 'z) list_view_class_scheme, 'f, 'm) view_instance \<Rightarrow> error + pydict" where
  "get_sort_options self =
     (if \<not> truthy_dict (sort_options (cls self)) then
        (case resource (cls self) of
           None \<Rightarrow> Inl (AttributeError ''service'')
         | Some r \<Rightarrow> Inr (search_sort_options r))
      else Inr (sort_options (cls self)))"

definition get_available_facets ::
  "(('s, 'z) list_view_class_scheme, 'f, 'm) view_instance \<Rightarrow> error + pydict" where
  "get_available_facets self =
     (if \<not> truthy_dict (available_facets (cls self)) then
        (case resource (cls self) of
           None \<Rightarrow> Inl (AttributeError ''service'')
         | Some r \<Rightarrow> Inr (search_facets r))
      else Inr (available_facets (cls self)))"

definition AdminResourceListView_get ::
  "'s flask_app \<Rightarrow> (('s, 'z) list_view_class_scheme, 'f, 'm) view_instance \<Rightarrow>
   error + ('s, 'j) rendered" where
  "AdminResourceListView_get app self =
     (case init_search_config app self of
        Inl e \<Rightarrow> Inl e
      | Inr search_conf \<Rightarrow>
          (case get_service_schema (cls self) of
             Inl e \<Rightarrow> Inl e
           | Inr s \<Rightarrow>
               render self
                 [(''search_config'', CtxSearch search_conf),
                  (''resource_schema'', CtxSchema s),
                  (''columns'', CtxColumns (columns (cls self)))]))"


section \<open>Registering a view\<close>

definition create_blueprint :: "('f, 'm) administration \<Rightarrow> ('f, 'm) administration" where
  "create_blueprint adm =
     adm\<lparr>blueprint := \<lparr>bp_name = admin_endpoint adm, url_prefix = admin_url adm, url_rules = []\<rparr>\<rparr>"

text \<open>
  Flask's \<^verbatim>\<open>Blueprint.add_url_rule(rule, view_func=f)\<close> raises \<^verbatim>\<open>ValueError\<close> when the
  name of the callable contains a dot, and records the rule otherwise. \<open>func_name\<close> gives
  the \<^verbatim>\<open>__name__\<close> of a view callable.
\<close>

definition add_url_rule ::
  "('f \<Rightarrow> string) \<Rightarrow> 'f blueprint \<Rightarrow> string option \<Rightarrow> 'f \<Rightarrow> error + 'f blueprint" where
  "add_url_rule func_name bp rule view_func =
     (if CHR ''.'' \<in> set (func_name view_func)
      then Inl (ValueError ''view_func name may not contain a dot'')
      else Inr (bp\<lparr>url_rules := url_rules bp @ [(rule, view_func)]\<rparr>))"

text \<open>
  \<^verbatim>\<open>Administration.add_view\<close>. The method \<^verbatim>\<open>add_view_to_menu\<close> of the menu
  (\<^verbatim>\<open>invenio_administration.menu\<close>) is a parameter. An exception leaves the registry as
  the statements before it have changed it: the result is the registry, or the exception
  together with the registry it leaves behind.
\<close>

definition add_view ::
  "('f \<Rightarrow> string) \<Rightarrow> (('c, 'f, 'm) view_instance \<Rightarrow> 'm \<Rightarrow> 'm) \<Rightarrow> 'f \<Rightarrow>
   ('c, 'f, 'm) view_instance \<Rightarrow> ('f, 'm) administration \<Rightarrow>
   (error \<times> ('f, 'm) administration) + ('f, 'm) administration" where
  "add_view func_name add_view_to_menu view view_instance adm =
     (let adm = adm\<lparr>views := views adm @ [view]\<rparr>
      in case add_url_rule func_name (blueprint adm) (url view_instance) view of
           Inl e \<Rightarrow> Inl (e, adm)
         | Inr bp \<Rightarrow>
             (let adm = adm\<lparr>blueprint := bp\<rparr>
              in Inr (adm\<lparr>menu := add_view_to_menu view_instance (menu adm)\<rparr>)))"

text \<open>The registry after a call, whether it returned or raised.\<close>

definition registry_after ::
  "(error \<times> ('f, 'm) administration) + ('f, 'm) administration \<Rightarrow> ('f, 'm) administration" where
  "registry_after r = (case r of Inl (e, adm) \<Rightarrow> adm | Inr adm \<Rightarrow> adm)"


section \<open>The classes of the source and a sample application\<close>

definition AdminResourceDetailView :: "'s detail_view_class" where
  "AdminResourceDetailView =
     \<lparr>class_name = ''AdminResourceDetailView'',
      mro = [''AdminResourceDetailView'', ''AdminResourceBaseView'', ''AdminBaseView'',
             ''MethodView'', ''View'', ''object''],
      c_extension = None,
      c_name = None,
      c_category = None,
      c_endpoint = None,
      c_template = ''invenio_administration/details.html'',
      c_url = None,
      c_get = Some ''AdminResourceDetailView.get'',
      display_edit = False,
      display_delete = False,
      resource_config = None,
      resource = None,
      actions = [],
      schema = None,
      item_field_exclude_list = None,
      item_field_list = None\<rparr>"

definition AdminResourceListView :: "'s list_view_class" where
  "AdminResourceListView =
     \<lparr>class_name = ''AdminResourceListView'',
      mro = [''AdminResourceListView'', ''AdminResourceBaseView'', ''AdminBaseView'',
             ''MethodView'', ''View'', ''object''],
      c_extension = None,
      c_name = None,
      c_category = None,
      c_endpoint = None,
      c_template = ''invenio_administration/search.html'',
      c_url = None,
      c_get = Some ''AdminResourceListView.get'',
      display_edit = False,
      display_delete = False,
      resource_config = None,
      resource = None,
      actions = [],
      schema = None,
      display_create = False,
      display_read = True,
      search_config_name = None,
      search_facets_config_name = None,
      search_sort_config_name = None,
      sort_options = [],
      available_facets = [],
      column_exclude_list = None,
      columns = None,
      search_api_endpoint = None,
      search_request_headers = [(''Accept'', ''application/vnd.inveniordm.v1+json'')]\<rparr>"

text \<open>The default of the constructors' \<^verbatim>\<open>name\<close> parameter, \<^verbatim>\<open>__name__\<close>.\<close>

definition default_name :: string where
  "default_name = ''invenio_administration.views.base''"

text \<open>
  A registry with the defaults of \<^verbatim>\<open>Administration.__init__\<close>, whose dashboard class
  is \<open>AdminDashboardView\<close>, and subclasses as an application declares them.
\<close>

definition sample_admin :: "(string, string list) administration" where
  "sample_admin =
     create_blueprint
       \<lparr>views = [],
        menu = [],
        menu_key = ''admin_navigation'',
        admin_name = ''Administration'',
        dashboard_view_class = Some ''AdminDashboardView'',
        admin_endpoint = ''administration'',
        admin_url = ''/administration'',
        base_template = ''invenio_administration/base.html'',
        blueprint = \<lparr>bp_name = [], url_prefix = [], url_rules = []\<rparr>\<rparr>"

text \<open>The sample registry once its dashboard view has been added.\<close>

definition dashboard_admin :: "(string, string list) administration" where
  "dashboard_admin =
     sample_admin
       \<lparr>views := [''dashboard''],
        menu := [''administration.dashboard''],
        blueprint := \<lparr>bp_name = ''administration'', url_prefix = ''/administration'',
                      url_rules = [(Some ''/'', ''dashboard'')]\<rparr>\<rparr>"

definition AdminDashboardView :: view_class where
  "AdminDashboardView =
     AdminBaseView
       \<lparr>class_name := ''AdminDashboardView'',
        mro := ''AdminDashboardView'' # mro AdminBaseView,
        c_name := Some ''dashboard''\<rparr>"

definition RecordsView :: view_class where
  "RecordsView =
     AdminBaseView
       \<lparr>class_name := ''RecordsView'',
        mro := ''RecordsView'' # mro AdminBaseView,
        c_name := Some ''Records''\<rparr>"

text \<open>A class that declares its endpoint, one that declares a relative URL, one without GET.\<close>

definition PeopleView :: view_class where
  "PeopleView =
     AdminBaseView
       \<lparr>class_name := ''PeopleView'',
        mro := ''PeopleView'' # mro AdminBaseView,
        c_name := Some ''Users'',
        c_endpoint := Some ''people''\<rparr>"

definition RelativeView :: view_class where
  "RelativeView = RecordsView
       \<lparr>class_name := ''RelativeView'',
        mro := ''RelativeView'' # mro RecordsView,
        c_url := Some ''records''\<rparr>"

definition NoGetView :: view_class where
  "NoGetView =
     AdminBaseView
       \<lparr>class_name := ''NoGetView'',
        mro := ''NoGetView'' # mro AdminBaseView,
        c_name := Some ''Broken'',
        c_get := None\<rparr>"

definition users_resource :: "pydict resource" where
  "users_resource =
     \<lparr>service_schema = [(''email'', ''string''), (''active'', ''boolean'')],
      search_sort_options = [(''newest'', ''-created'')],
      search_facets = [(''status'', ''active'')],
      config_blueprint_name = ''users''\<rparr>"

definition sample_app :: "pydict flask_app" where
  "sample_app =
     \<lparr>extensions = [''invenio-users-resources'' \<mapsto> [''users_resource'' \<mapsto> users_resource]],
      config = [''USERS_FACETS'' \<mapsto> [(''domain'', ''cern.ch'')],
                ''USERS_SORT'' \<mapsto> [(''bestmatch'', ''_score'')]],
      api_mount = Some [''users.search'' \<mapsto> [''/users'']]\<rparr>"

definition UsersListView :: "pydict list_view_class" where
  "UsersListView =
     AdminResourceListView
       \<lparr>class_name := ''UsersListView'',
        mro := ''UsersListView'' # mro (AdminResourceListView :: pydict list_view_class),
        c_extension := Some ''invenio-users-resources'',
        c_name := Some ''Users'',
        resource_config := Some ''users_resource'',
        search_facets_config_name := Some ''USERS_FACETS'',
        search_sort_config_name := Some ''USERS_SORT'',
        sort_options := [(''email'', ''email'')],
        available_facets := [(''role'', ''admin'')]\<rparr>"

definition GroupsListView :: "pydict list_view_class" where
  "GroupsListView =
     UsersListView
       \<lparr>class_name := ''GroupsListView'',
        c_name := Some ''Groups'',
        resource_config := Some ''groups_resource''\<rparr>"

definition UsersDetailView :: "pydict detail_view_class" where
  "UsersDetailView =
     AdminResourceDetailView
       \<lparr>class_name := ''UsersDetailView'',
        mro := ''UsersDetailView'' # mro (AdminResourceDetailView :: pydict detail_view_class),
        c_extension := Some ''invenio-users-resources'',
        c_name := Some ''User'',
        resource_config := Some ''users_resource''\<rparr>"

text \<open>A menu that keeps the endpoint location names of the views forwarded to it.\<close>

definition sample_add_view_to_menu ::
  "(pydict list_view_class, string, string list) view_instance \<Rightarrow> string list \<Rightarrow> string list" where
  "sample_add_view_to_menu view_instance m = m @ [py_str (endpoint_location_name view_instance)]"

text \<open>A serializer that keeps the field names of a schema.\<close>

definition field_names :: "pydict \<Rightarrow> string list" where
  "field_names s = map fst s"

text \<open>
  Instances as the constructor leaves them, after \<^verbatim>\<open>set_resource\<close> has bound the class
  to its resource. \<open>roles_list_view\<close> declares neither facets nor sort options.
\<close>

definition users_list_view ::
  "(pydict list_view_class, string, string list) view_instance" where
  "users_list_view =
     \<lparr>cls = UsersListView\<lparr>resource := Some users_resource\<rparr>,
      extension = Some ''invenio-users-resources'',
      name = Some ''Users'',
      category = None,
      endpoint = Some ''users'',
      url = Some ''/users'',
      administration = Some sample_admin\<rparr>"

definition roles_list_view ::
  "(pydict list_view_class, string, string list) view_instance" where
  "roles_list_view =
     users_list_view
       \<lparr>cls := UsersListView
                 \<lparr>class_name := ''RolesListView'',
                  resource := Some users_resource,
                  sort_options := [],
                  available_facets := []\<rparr>\<rparr>"

definition users_detail_view ::
  "(pydict detail_view_class, string, string list) view_instance" where
  "users_detail_view =
     \<lparr>cls = UsersDetailView\<lparr>resource := Some users_resource\<rparr>,
      extension = Some ''invenio-users-resources'',
      name = Some ''User'',
      category = None,
      endpoint = Some ''user'',
      url = Some ''/user'',
      administration = Some sample_admin\<rparr>"


section \<open>Evaluation of the samples\<close>

lemma char_of_nat_bits:
  "char_of (n::nat) =
     Char (odd n) (odd (n div 2)) (odd (n div 4)) (odd (n div 8))
          (odd (n div 16)) (odd (n div 32)) (odd (n div 64)) (odd (n div 128))"
  by (simp add: char_of_def bit_iff_odd)

lemmas string_defs =
  lower_def lower_char_def upper_def upper_char_def startswith_def char_of_nat_bits

lemmas init_defs =
  init_def assign_attributes_def get_endpoint_def get_view_url_def isinstance_def

lemmas sample_defs =
  AdminBaseView_def AdminDashboardView_def RecordsView_def PeopleView_def RelativeView_def
  NoGetView_def sample_admin_def create_blueprint_def default_name_def

lemmas resource_sample_defs =
  AdminResourceListView_def AdminResourceDetailView_def UsersListView_def GroupsListView_def
  UsersDetailView_def users_resource_def sample_app_def users_list_view_def
  roles_list_view_def users_detail_view_def field_names_def

lemma set_resource_users:
  "set_resource sample_app UsersListView None
     = Inr (UsersListView\<lparr>resource := Some users_resource\<rparr>)"
  by (simp add: set_resource_def get_resource_def get_view_extension_def resource_sample_defs)

lemma users_list_view_constructed:
  "resource_init (UsersListView\<lparr>resource := Some users_resource\<rparr>) (Some default_name)
     None None None None (Some sample_admin) = Inr users_list_view"
  by (simp add: resource_init_def init_defs resource_sample_defs sample_defs string_defs)

lemma users_detail_view_constructed:
  "resource_init (UsersDetailView\<lparr>resource := Some users_resource\<rparr>) (Some default_name)
     None None None None (Some sample_admin) = Inr users_detail_view"
  by (simp add: resource_init_def init_defs resource_sample_defs sample_defs string_defs)


section \<open>The constructor of the base view\<close>

lemma assign_attributes_sel:
  "cls (assign_attributes c n cat ext adm) = c"
  "endpoint (assign_attributes c n cat ext adm) = c_endpoint c"
  "url (assign_attributes c n cat ext adm) = c_url c"
  "administration (assign_attributes c n cat ext adm) = adm"
  "name (assign_attributes c n cat ext adm) = (if c_name c = None then n else c_name c)"
  by (simp_all add: assign_attributes_def)

lemma get_endpoint_total:
  assumes "truthy endpoint_arg \<or> truthy (endpoint self) \<or> name self \<noteq> None"
  shows "\<exists>ep. get_endpoint self endpoint_arg = Inr ep"
  using assms by (cases "name self") (auto simp: get_endpoint_def)

lemma get_endpoint_explicit:
  "truthy endpoint_arg \<Longrightarrow> get_endpoint self endpoint_arg = Inr endpoint_arg"
  by (simp add: get_endpoint_def)

lemma get_endpoint_lower_name:
  "\<not> truthy endpoint_arg \<Longrightarrow> \<not> truthy (endpoint self) \<Longrightarrow> name self = Some n \<Longrightarrow>
   get_endpoint self endpoint_arg = Inr (Some (lower n))"
  by (simp add: get_endpoint_def)

lemma get_view_url_dashboard:
  assumes "administration self = Some a" and "dashboard_view_class a = Some d"
    and "d \<in> set (mro (cls self))"
  shows "get_view_url self None = Inr ''/''"
  using assms by (simp add: get_view_url_def isinstance_def)

lemma get_view_url_total:
  assumes "administration self = Some a" and "dashboard_view_class a = Some d"
  shows "\<exists>u. get_view_url self url_arg = Inr u"
  using assms by (cases url_arg) (simp_all add: get_view_url_def)

lemma truthy_startswith: "startswith u ''/'' \<Longrightarrow> truthy (Some u)"
  by (cases u) (simp_all add: startswith_def)

text \<open>
  C1, as the code has it: an instance of the registry's dashboard class gets the URL
  \<open>/\<close> when its class declares no \<^verbatim>\<open>url\<close> and no (or an empty) \<^verbatim>\<open>url\<close> argument is
  passed; a \<^verbatim>\<open>url\<close> argument that starts with \<open>/\<close> is used as it is, also for the
  dashboard class.
\<close>

theorem dashboard_url:
  assumes d: "dashboard_view_class a = Some d" "d \<in> set (mro c)"
    and g: "c_get c \<noteq> None"
    and n: "truthy endpoint_arg \<or> truthy (c_endpoint c) \<or> name_arg \<noteq> None \<or> c_name c \<noteq> None"
  shows "(c_url c = None \<and> \<not> truthy url_arg \<longrightarrow>
            (\<exists>self. init c name_arg category_arg endpoint_arg url_arg extension_arg (Some a) = Inr self
                    \<and> url self = Some ''/'')) \<and>
         (\<forall>u. url_arg = Some u \<and> startswith u ''/'' \<longrightarrow>
            (\<exists>self. init c name_arg category_arg endpoint_arg url_arg extension_arg (Some a) = Inr self
                    \<and> url self = Some u))"
proof -
  let ?self = "assign_attributes c name_arg category_arg extension_arg (Some a)"
  from n have "truthy endpoint_arg \<or> truthy (endpoint ?self) \<or> name ?self \<noteq> None"
    by (auto simp: assign_attributes_sel)
  then obtain ep where ep: "get_endpoint ?self endpoint_arg = Inr ep"
    using get_endpoint_total by blast
  have dash: "get_view_url (?self\<lparr>endpoint := ep\<rparr>) None = Inr ''/''"
    using d
    by (intro get_view_url_dashboard [where a = a and d = d]) (simp_all add: assign_attributes_sel)
  have first: "\<exists>self. init c name_arg category_arg endpoint_arg url_arg extension_arg (Some a) = Inr self
                    \<and> url self = Some ''/''"
    if "c_url c = None" "\<not> truthy url_arg"
    using that ep dash g by (simp add: init_def Let_def assign_attributes_sel)
  have second: "\<exists>self. init c name_arg category_arg endpoint_arg url_arg extension_arg (Some a) = Inr self
                    \<and> url self = Some u"
    if "url_arg = Some u" "startswith u ''/''" for u
    using that ep g truthy_startswith [OF that(2)]
    by (simp add: init_def Let_def assign_attributes_sel)
  show ?thesis
    using first second by blast
qed

text \<open>
  C1, witness: the dashboard of the sample registry, constructed as
  \<^verbatim>\<open>_add_dashboard_view\<close> does and with the argument \<^verbatim>\<open>url="/home"\<close>.
\<close>

theorem dashboard_url_witness:
  "(\<exists>self. init AdminDashboardView (Some default_name) None None None
             (Some ''invenio-administration'') (Some sample_admin) = Inr self
           \<and> url self = Some ''/'') \<and>
   (\<exists>self. init AdminDashboardView (Some default_name) None None (Some ''/home'')
             (Some ''invenio-administration'') (Some sample_admin) = Inr self
           \<and> url self = Some ''/home'')"
proof -
  have h: "dashboard_view_class sample_admin = Some ''AdminDashboardView''"
          "''AdminDashboardView'' \<in> set (mro AdminDashboardView)"
          "c_get AdminDashboardView \<noteq> None"
          "truthy None \<or> truthy (c_endpoint AdminDashboardView) \<or> Some default_name \<noteq> None
             \<or> c_name AdminDashboardView \<noteq> None"
          "c_url AdminDashboardView = None"
    by (simp_all add: sample_defs)
  have s: "startswith ''/home'' ''/''"
    by (simp add: startswith_def)
  show ?thesis
    using dashboard_url [OF h(1-4), of None None "Some ''invenio-administration''"]
      dashboard_url [OF h(1-4), of "Some ''/home''" None "Some ''invenio-administration''"] h(5) s
    by simp
qed

text \<open>
  C1, as the spec states it, fails: the dashboard class of the sample registry,
  constructed with \<^verbatim>\<open>url="/home"\<close>, gets the URL \<open>/home\<close> and not \<open>/\<close>.
\<close>

theorem dashboard_url_argument_counterexample:
  "dashboard_view_class sample_admin = Some ''AdminDashboardView'' \<and>
   class_name AdminDashboardView = ''AdminDashboardView'' \<and>
   \<not> isl (init AdminDashboardView (Some default_name) None None (Some ''/home'')
             (Some ''invenio-administration'') (Some sample_admin)) \<and>
   isinstance (projr (init AdminDashboardView (Some default_name) None None (Some ''/home'')
                        (Some ''invenio-administration'') (Some sample_admin)))
     ''AdminDashboardView'' \<and>
   url (projr (init AdminDashboardView (Some default_name) None None (Some ''/home'')
                (Some ''invenio-administration'') (Some sample_admin))) = Some ''/home'' \<and>
   url (projr (init AdminDashboardView (Some default_name) None None (Some ''/home'')
                (Some ''invenio-administration'') (Some sample_admin))) \<noteq> Some ''/''"
  by (simp add: init_defs sample_defs string_defs)

text \<open>
  C3, as the code has it: constructing a view whose class has \<^verbatim>\<open>get = None\<close> never
  succeeds; the exception is the one that names the class whenever the view has a name
  and a registry with a dashboard class is passed as \<^verbatim>\<open>admin\<close>.
\<close>

theorem init_without_get:
  assumes "c_get c = None"
  shows "isl (init c name_arg category_arg endpoint_arg url_arg extension_arg admin) \<and>
         (\<forall>a d. admin = Some a \<and> dashboard_view_class a = Some d \<and>
                 (name_arg \<noteq> None \<or> c_name c \<noteq> None) \<longrightarrow>
            init c name_arg category_arg endpoint_arg url_arg extension_arg admin
              = Inl (Exception (no_get_message (class_name c))))"
proof -
  let ?self = "assign_attributes c name_arg category_arg extension_arg admin"
  let ?init = "init c name_arg category_arg endpoint_arg url_arg extension_arg admin"
  have fails: "isl ?init"
  proof (cases "get_endpoint ?self endpoint_arg")
    case (Inl e)
    then show ?thesis by (simp add: init_def)
  next
    case (Inr ep)
    show ?thesis
    proof (cases "truthy url_arg")
      case True
      with Inr assms show ?thesis
        by (simp add: init_def Let_def assign_attributes_sel)
    next
      case False
      with Inr assms show ?thesis
        by (cases "get_view_url (?self\<lparr>endpoint := ep\<rparr>) (c_url c)")
           (simp_all add: init_def Let_def assign_attributes_sel)
    qed
  qed
  have named: "?init = Inl (Exception (no_get_message (class_name c)))"
    if a: "admin = Some a" "dashboard_view_class a = Some d"
      and n: "name_arg \<noteq> None \<or> c_name c \<noteq> None" for a d
  proof -
    from n have "name ?self \<noteq> None"
      by (auto simp: assign_attributes_sel)
    then obtain ep where ep: "get_endpoint ?self endpoint_arg = Inr ep"
      using get_endpoint_total by blast
    obtain u where u: "get_view_url (?self\<lparr>endpoint := ep\<rparr>) (c_url c) = Inr u"
      using get_view_url_total [of "?self\<lparr>endpoint := ep\<rparr>" a d "c_url c"] a
      by (auto simp: assign_attributes_sel)
    show ?thesis
      using ep u assms by (simp add: init_def Let_def assign_attributes_sel)
  qed
  show ?thesis
    using fails named by blast
qed

text \<open>C3, witness: the class \<open>NoGetView\<close>, constructed with the sample registry.\<close>

theorem init_without_get_witness:
  "isl (init NoGetView (Some default_name) None None None None (Some sample_admin)) \<and>
   init NoGetView (Some default_name) None None None None (Some sample_admin)
     = Inl (Exception
              ''Cannot instantiate administration view NoGetView without a default GET view'')"
proof -
  have h: "c_get NoGetView = None"
          "dashboard_view_class sample_admin = Some ''AdminDashboardView''"
          "class_name NoGetView = ''NoGetView''"
    by (simp_all add: sample_defs)
  show ?thesis
    using init_without_get [OF h(1), of "Some default_name" None None None None "Some sample_admin"] h
    by (simp add: no_get_message_def)
qed

text \<open>
  C3, as the spec states it, fails: \<open>NoGetView\<close> constructed with the defaults of the
  constructor (no registry) raises the \<^verbatim>\<open>AttributeError\<close> of URL resolution, not the
  exception that names the class.
\<close>

theorem init_without_get_counterexample:
  "c_get NoGetView = None \<and>
   init NoGetView (Some default_name) None None None None
        (None :: (string, string list) administration option)
     = Inl (AttributeError ''dashboard_view_class'') \<and>
   init NoGetView (Some default_name) None None None None
        (None :: (string, string list) administration option)
     \<noteq> Inl (Exception (no_get_message (class_name NoGetView)))"
  by (simp add: init_defs sample_defs string_defs)

text \<open>
  C4: endpoint resolution is to return the \<^verbatim>\<open>endpoint\<close> argument when one is given and
  the lower-cased name otherwise. For \<open>PeopleView\<close>, which declares
  \<^verbatim>\<open>endpoint = "people"\<close> and \<^verbatim>\<open>name = "Users"\<close>, and no argument, \<^verbatim>\<open>_get_endpoint\<close>
  returns \<^verbatim>\<open>None\<close>: the constructed view has the endpoint \<^verbatim>\<open>None\<close> and the URL \<open>/None\<close>.
\<close>

theorem get_endpoint_declared_endpoint:
  "get_endpoint
     \<lparr>cls = PeopleView, extension = None, name = Some ''Users'', category = None,
      endpoint = Some ''people'', url = None, administration = Some sample_admin\<rparr> None
     = Inr None \<and>
   endpoint (projr (init PeopleView (Some default_name) None None None None (Some sample_admin)))
     = None \<and>
   url (projr (init PeopleView (Some default_name) None None None None (Some sample_admin)))
     = Some ''/None''"
  by (simp add: init_defs sample_defs string_defs)

text \<open>
  C5: a \<^verbatim>\<open>url\<close> argument that does not start with \<open>/\<close> is to be resolved to the
  registry's URL prefix, \<open>/\<close> and the argument. \<open>RecordsView\<close>, not the dashboard,
  constructed with \<^verbatim>\<open>url="records"\<close> keeps the URL \<open>records\<close>; the same relative URL
  declared on the class (\<open>RelativeView\<close>) is resolved to \<open>/administration/records\<close>.
\<close>

theorem relative_url_argument:
  "\<not> isl (init RecordsView (Some default_name) None None (Some ''records'') None
             (Some sample_admin)) \<and>
   \<not> isinstance (projr (init RecordsView (Some default_name) None None (Some ''records'') None
                          (Some sample_admin))) ''AdminDashboardView'' \<and>
   url (projr (init RecordsView (Some default_name) None None (Some ''records'') None
                (Some sample_admin))) = Some ''records'' \<and>
   admin_url sample_admin = ''/administration'' \<and>
   url (projr (init RelativeView (Some default_name) None None None None (Some sample_admin)))
     = Some ''/administration/records''"
  by (simp add: init_defs sample_defs string_defs)

text \<open>
  C9: \<^verbatim>\<open>endpoint_location_name\<close> is the endpoint of the view when \<^verbatim>\<open>administration\<close>
  is \<^verbatim>\<open>None\<close>, and otherwise the registry's endpoint, a dot and the view's endpoint
  (formatted by the f-string).
\<close>

theorem endpoint_location_name_spec:
  "(administration self = None \<longrightarrow> endpoint_location_name self = endpoint self) \<and>
   (\<forall>a. administration self = Some a \<longrightarrow>
      endpoint_location_name self = Some (admin_endpoint a @ ''.'' @ py_str (endpoint self))) \<and>
   (\<forall>a e. administration self = Some a \<and> endpoint self = Some e \<longrightarrow>
      endpoint_location_name self = Some (admin_endpoint a @ ''.'' @ e))"
  by (simp add: endpoint_location_name_def)

text \<open>C9, witness: the users list view, with its registry and without one.\<close>

theorem endpoint_location_name_witness:
  "endpoint_location_name users_list_view = Some ''administration.users'' \<and>
   endpoint_location_name (users_list_view\<lparr>administration := None\<rparr>) = Some ''users''"
proof -
  have a: "administration users_list_view = Some sample_admin"
          "endpoint users_list_view = Some ''users''"
    by (simp_all add: users_list_view_def)
  have b: "administration (users_list_view\<lparr>administration := None\<rparr>) = None"
          "endpoint (users_list_view\<lparr>administration := None\<rparr>) = Some ''users''"
    by (simp_all add: users_list_view_def)
  have c: "admin_endpoint sample_admin = ''administration''"
    by (simp add: sample_defs)
  show ?thesis
    using endpoint_location_name_spec [of users_list_view]
      endpoint_location_name_spec [of "users_list_view\<lparr>administration := None\<rparr>"] a b c
    by simp
qed


section \<open>Resource-bound views\<close>

text \<open>The exceptions of the two constructors.\<close>

lemma get_endpoint_error:
  "get_endpoint self endpoint_arg = Inl e \<Longrightarrow> e = AttributeError ''lower''"
  by (cases "name self") (auto simp: get_endpoint_def split: if_splits)

lemma get_view_url_error:
  "get_view_url self url_arg = Inl e \<Longrightarrow> e \<noteq> InvalidResource r v"
  by (auto simp: get_view_url_def split: option.splits if_splits)

lemma init_not_InvalidResource:
  "init c name_arg category_arg endpoint_arg url_arg extension_arg admin
     \<noteq> Inl (InvalidResource r v)"
proof (cases "get_endpoint (assign_attributes c name_arg category_arg extension_arg admin) endpoint_arg")
  case (Inl e)
  then show ?thesis
    using get_endpoint_error [OF Inl] by (simp add: init_def)
next
  case (Inr ep)
  let ?self = "(assign_attributes c name_arg category_arg extension_arg admin)\<lparr>endpoint := ep\<rparr>"
  show ?thesis
  proof (cases "truthy url_arg")
    case True
    with Inr show ?thesis
      by (simp add: init_def Let_def)
  next
    case False
    show ?thesis
    proof (cases "get_view_url ?self (c_url c)")
      case (Inl e)
      with Inr False get_view_url_error [OF Inl, of r v] show ?thesis
        by (simp add: init_def Let_def assign_attributes_sel)
    next
      case u: (Inr u)
      with Inr False show ?thesis
        by (simp add: init_def Let_def assign_attributes_sel)
    qed
  qed
qed

lemma resource_init_not_InvalidResource:
  "resource_init c name_arg category_arg endpoint_arg url_arg extension_arg admin
     \<noteq> Inl (InvalidResource r v)"
proof (cases "init c name_arg category_arg endpoint_arg url_arg extension_arg admin")
  case (Inl e)
  then show ?thesis
    using init_not_InvalidResource [of c name_arg category_arg endpoint_arg url_arg extension_arg admin r v]
    by (simp add: resource_init_def)
next
  case (Inr self)
  then show ?thesis
    by (simp add: resource_init_def)
qed

text \<open>
  C2, as the code has it: for a class whose \<^verbatim>\<open>resource_config\<close> names an attribute that
  the extension of the view does not have, \<^verbatim>\<open>_get_resource\<close>, and \<^verbatim>\<open>set_resource\<close>
  through it, raise \<^verbatim>\<open>InvalidResource\<close> with the value of \<^verbatim>\<open>resource_config\<close> and the
  name of the class. The constructor does not look the resource up: whatever its
  arguments, it raises no \<^verbatim>\<open>InvalidResource\<close>.
\<close>

theorem get_resource_invalid:
  assumes "get_view_extension app c extension_arg = Inr ext"
    and "resource_config c = Some rc" and "ext rc = None"
  shows "get_resource app c extension_arg = Inl (InvalidResource rc (class_name c)) \<and>
         set_resource app c extension_arg = Inl (InvalidResource rc (class_name c)) \<and>
         (\<forall>name_arg category_arg endpoint_arg url_arg ext_arg
            (admin :: ('f, 'm) administration option) r v.
            resource_init c name_arg category_arg endpoint_arg url_arg ext_arg admin
              \<noteq> Inl (InvalidResource r v))"
proof -
  have lookup: "get_resource app c extension_arg = Inl (InvalidResource rc (class_name c))"
    using assms by (simp add: get_resource_def)
  then have setter: "set_resource app c extension_arg = Inl (InvalidResource rc (class_name c))"
    by (simp add: set_resource_def)
  have constructor:
    "resource_init c name_arg category_arg endpoint_arg url_arg ext_arg admin
       \<noteq> Inl (InvalidResource r v)"
    for name_arg category_arg endpoint_arg url_arg ext_arg
      and admin :: "('f, 'm) administration option" and r v
    by (rule resource_init_not_InvalidResource)
  show ?thesis
    using lookup setter constructor by blast
qed

text \<open>
  C2, witness: \<open>GroupsListView\<close> names \<open>groups_resource\<close>, which the extension of the
  sample application does not have.
\<close>

theorem get_resource_invalid_witness:
  "get_resource sample_app GroupsListView None
     = Inl (InvalidResource ''groups_resource'' ''GroupsListView'') \<and>
   set_resource sample_app GroupsListView None
     = Inl (InvalidResource ''groups_resource'' ''GroupsListView'') \<and>
   resource_init GroupsListView (Some default_name) None None None None (Some sample_admin)
     \<noteq> Inl (InvalidResource ''groups_resource'' ''GroupsListView'')"
proof -
  have e: "get_view_extension sample_app GroupsListView None
             = Inr [''users_resource'' \<mapsto> users_resource]"
    by (simp add: get_view_extension_def resource_sample_defs)
  have r: "resource_config GroupsListView = Some ''groups_resource''"
          "class_name GroupsListView = ''GroupsListView''"
    by (simp_all add: resource_sample_defs)
  have a: "[''users_resource'' \<mapsto> users_resource] ''groups_resource'' = None"
    by simp
  have "get_resource sample_app GroupsListView None
          = Inl (InvalidResource ''groups_resource'' (class_name GroupsListView)) \<and>
        set_resource sample_app GroupsListView None
          = Inl (InvalidResource ''groups_resource'' (class_name GroupsListView)) \<and>
        (\<forall>name_arg category_arg endpoint_arg url_arg ext_arg
           (admin :: (string, string list) administration option) r v.
           resource_init GroupsListView name_arg category_arg endpoint_arg url_arg ext_arg admin
             \<noteq> Inl (InvalidResource r v))"
    by (rule get_resource_invalid [OF e r(1) a])
  then show ?thesis
    using r(2) by simp
qed

text \<open>
  C2, as the spec states it, fails: \<open>GroupsListView\<close> names a resource that its
  extension does not have, and constructing it raises nothing.
\<close>

theorem resource_init_counterexample:
  "resource_config GroupsListView = Some ''groups_resource'' \<and>
   get_resource sample_app GroupsListView None
     = Inl (InvalidResource ''groups_resource'' ''GroupsListView'') \<and>
   \<not> isl (resource_init GroupsListView (Some default_name) None None None None
             (Some sample_admin))"
  by (simp add: resource_init_def init_defs get_resource_def get_view_extension_def
      resource_sample_defs sample_defs string_defs)

text \<open>
  C6, as the code has it: the search configuration of a list view takes its facets and
  its sort options from the configuration of the application, under the keys
  \<^verbatim>\<open>search_facets_config_name\<close> and \<^verbatim>\<open>search_sort_config_name\<close> of the view, whatever the
  view declares and whatever the service of the resource configures; the GET handler
  renders that configuration with the schema of the resource and the columns.
\<close>

theorem search_config_from_app_config:
  assumes fk: "search_facets_config_name (cls self) = Some fk" "config app fk = Some fs"
    and sk: "search_sort_config_name (cls self) = Some sk" "config app sk = Some so"
    and n: "get_search_app_name self = Inr n"
    and ep: "get_search_api_endpoint app self = Inr ep"
    and r: "resource (cls self) = Some r"
    and a: "administration self = Some a"
  shows "init_search_config app self
           = Inr \<lparr>kw_config_name = n, kw_available_facets = fs, kw_sort_options = so,
                  kw_endpoint = ep, kw_headers = search_request_headers (cls self)\<rparr> \<and>
         AdminResourceListView_get app self
           = Inr \<lparr>template = c_template (cls self),
                  template_context =
                    [(''search_config'',
                      CtxSearch \<lparr>kw_config_name = n, kw_available_facets = fs,
                                 kw_sort_options = so, kw_endpoint = ep,
                                 kw_headers = search_request_headers (cls self)\<rparr>),
                     (''resource_schema'', CtxSchema (service_schema r)),
                     (''columns'', CtxColumns (columns (cls self))),
                     (''admin_base_template'', CtxStr (base_template a))]\<rparr>"
proof -
  have conf: "init_search_config app self
           = Inr \<lparr>kw_config_name = n, kw_available_facets = fs, kw_sort_options = so,
                  kw_endpoint = ep, kw_headers = search_request_headers (cls self)\<rparr>"
    using fk sk n ep
    by (simp add: init_search_config_def config_lookup_def get_search_request_headers_def)
  have s: "get_service_schema (cls self) = Inr (service_schema r)"
    using r by (simp add: get_service_schema_def)
  show ?thesis
    using conf s a
    by (simp add: AdminResourceListView_get_def render_def get_template_def)
qed

text \<open>
  C6, witness: the users list view in the sample application, whose configuration holds
  \<open>USERS_FACETS\<close> and \<open>USERS_SORT\<close>.
\<close>

theorem search_config_from_app_config_witness:
  "init_search_config sample_app users_list_view
     = Inr \<lparr>kw_config_name = ''USERS_SEARCH'',
            kw_available_facets = [(''domain'', ''cern.ch'')],
            kw_sort_options = [(''bestmatch'', ''_score'')],
            kw_endpoint = ''/api//users'',
            kw_headers = [(''Accept'', ''application/vnd.inveniordm.v1+json'')]\<rparr> \<and>
   (AdminResourceListView_get sample_app users_list_view
      :: error + (pydict, string list) rendered)
     = Inr \<lparr>template = ''invenio_administration/search.html'',
            template_context =
              [(''search_config'',
                CtxSearch \<lparr>kw_config_name = ''USERS_SEARCH'',
                           kw_available_facets = [(''domain'', ''cern.ch'')],
                           kw_sort_options = [(''bestmatch'', ''_score'')],
                           kw_endpoint = ''/api//users'',
                           kw_headers = [(''Accept'', ''application/vnd.inveniordm.v1+json'')]\<rparr>),
               (''resource_schema'', CtxSchema [(''email'', ''string''), (''active'', ''boolean'')]),
               (''columns'', CtxColumns None),
               (''admin_base_template'', CtxStr ''invenio_administration/base.html'')]\<rparr>"
proof -
  have k: "search_facets_config_name (cls users_list_view) = Some ''USERS_FACETS''"
          "config sample_app ''USERS_FACETS'' = Some [(''domain'', ''cern.ch'')]"
          "search_sort_config_name (cls users_list_view) = Some ''USERS_SORT''"
          "config sample_app ''USERS_SORT'' = Some [(''bestmatch'', ''_score'')]"
    by (simp_all add: resource_sample_defs)
  have n: "get_search_app_name users_list_view = Inr ''USERS_SEARCH''"
    by (simp add: get_search_app_name_def resource_sample_defs string_defs)
  have ep: "get_search_api_endpoint sample_app users_list_view = Inr ''/api//users''"
    by (simp add: get_search_api_endpoint_def mounted_api_rule_def resource_sample_defs)
  have r: "resource (cls users_list_view) = Some users_resource"
          "administration users_list_view = Some sample_admin"
    by (simp_all add: resource_sample_defs)
  have v: "search_request_headers (cls users_list_view)
             = [(''Accept'', ''application/vnd.inveniordm.v1+json'')]"
          "c_template (cls users_list_view) = ''invenio_administration/search.html''"
          "columns (cls users_list_view) = None"
          "service_schema users_resource = [(''email'', ''string''), (''active'', ''boolean'')]"
          "base_template sample_admin = ''invenio_administration/base.html''"
    by (simp_all add: resource_sample_defs sample_defs)
  show ?thesis
    using search_config_from_app_config [OF k n ep r] v by simp
qed

text \<open>
  C6, as the spec states it, fails: the users list view declares facets and sort
  options, and the roles list view declares none and would fall back to those of the
  service; the search configuration of both holds the facets and sort options of the
  application's configuration.
\<close>

theorem search_config_counterexample:
  "available_facets (cls users_list_view) = [(''role'', ''admin'')] \<and>
   sort_options (cls users_list_view) = [(''email'', ''email'')] \<and>
   init_search_config sample_app users_list_view
     = Inr \<lparr>kw_config_name = ''USERS_SEARCH'',
            kw_available_facets = [(''domain'', ''cern.ch'')],
            kw_sort_options = [(''bestmatch'', ''_score'')],
            kw_endpoint = ''/api//users'',
            kw_headers = [(''Accept'', ''application/vnd.inveniordm.v1+json'')]\<rparr> \<and>
   get_available_facets roles_list_view = Inr [(''status'', ''active'')] \<and>
   get_sort_options roles_list_view = Inr [(''newest'', ''-created'')] \<and>
   init_search_config sample_app roles_list_view
     = Inr \<lparr>kw_config_name = ''USERS_SEARCH'',
            kw_available_facets = [(''domain'', ''cern.ch'')],
            kw_sort_options = [(''bestmatch'', ''_score'')],
            kw_endpoint = ''/api//users'',
            kw_headers = [(''Accept'', ''application/vnd.inveniordm.v1+json'')]\<rparr>"
  by (simp add: init_search_config_def get_search_app_name_def config_lookup_def
      get_search_api_endpoint_def mounted_api_rule_def get_search_request_headers_def
      get_available_facets_def get_sort_options_def truthy_dict_def
      resource_sample_defs string_defs)

text \<open>
  C7, as the code has it: the GET handler of a detail view renders the template of the
  view with the serialized schema of the resource's service and the base template of the
  registry; the identifier is accepted and not passed on, so the result is the same for
  every identifier.
\<close>

theorem detail_get_spec:
  assumes "resource (cls self) = Some r" and "administration self = Some a"
  shows "AdminResourceDetailView_get jsonify_schema self pid_value
           = Inr \<lparr>template = c_template (cls self),
                  template_context =
                    [(''schema'', CtxJson (jsonify_schema (service_schema r))),
                     (''admin_base_template'', CtxStr (base_template a))]\<rparr> \<and>
         AdminResourceDetailView_get jsonify_schema self pid_value
           = (AdminResourceDetailView_get jsonify_schema self None
                :: error + ('s, 'j) rendered)"
  using assms
  by (simp add: AdminResourceDetailView_get_def get_service_schema_def schema_to_json_def
      render_def get_template_def)

text \<open>C7, witness: the users detail view, asked for the item \<open>42\<close>.\<close>

theorem detail_get_witness:
  "(AdminResourceDetailView_get field_names users_detail_view (Some ''42'')
      :: error + (pydict, string list) rendered)
     = Inr \<lparr>template = ''invenio_administration/details.html'',
            template_context =
              [(''schema'', CtxJson [''email'', ''active'']),
               (''admin_base_template'', CtxStr ''invenio_administration/base.html'')]\<rparr>"
proof -
  have h: "resource (cls users_detail_view) = Some users_resource"
          "administration users_detail_view = Some sample_admin"
    by (simp_all add: resource_sample_defs)
  have v: "c_template (cls users_detail_view) = ''invenio_administration/details.html''"
          "field_names (service_schema users_resource) = [''email'', ''active'']"
          "base_template sample_admin = ''invenio_administration/base.html''"
    by (simp_all add: resource_sample_defs sample_defs)
  show ?thesis
    using detail_get_spec [OF h, of field_names "Some ''42''"] v by simp
qed

text \<open>
  C7, as the spec states it, fails: the context rendered for the item \<open>42\<close> holds the
  schema and the base template, and the identifier under no key.
\<close>

theorem detail_get_counterexample:
  "\<not> isl (AdminResourceDetailView_get field_names users_detail_view (Some ''42'')
            :: error + (pydict, string list) rendered) \<and>
   map fst (template_context
              (projr (AdminResourceDetailView_get field_names users_detail_view (Some ''42'')
                        :: error + (pydict, string list) rendered)))
     = [''schema'', ''admin_base_template''] \<and>
   CtxStr ''42'' \<notin> set (map snd (template_context
              (projr (AdminResourceDetailView_get field_names users_detail_view (Some ''42'')
                        :: error + (pydict, string list) rendered))))"
  by (simp add: AdminResourceDetailView_get_def get_service_schema_def schema_to_json_def
      render_def get_template_def resource_sample_defs sample_defs)

text \<open>
  C10: with an empty \<^verbatim>\<open>sort_options\<close> (or \<^verbatim>\<open>available_facets\<close>) mapping, declared on
  the class or inherited, \<^verbatim>\<open>get_sort_options\<close> (or \<^verbatim>\<open>get_available_facets\<close>) returns the
  configuration of the resource's service; a mapping that is not empty is returned as it
  is.
\<close>

theorem fallback_spec:
  "(\<forall>r. resource (cls self) = Some r \<and> sort_options (cls self) = [] \<longrightarrow>
        get_sort_options self = Inr (search_sort_options r)) \<and>
   (\<forall>r. resource (cls self) = Some r \<and> available_facets (cls self) = [] \<longrightarrow>
        get_available_facets self = Inr (search_facets r)) \<and>
   (sort_options (cls self) \<noteq> [] \<longrightarrow> get_sort_options self = Inr (sort_options (cls self))) \<and>
   (available_facets (cls self) \<noteq> [] \<longrightarrow>
        get_available_facets self = Inr (available_facets (cls self)))"
  by (simp add: get_sort_options_def get_available_facets_def truthy_dict_def)

text \<open>
  C10, witness: the roles list view, whose class sets both mappings to the empty one,
  and the users list view, which declares both.
\<close>

theorem fallback_witness:
  "get_sort_options roles_list_view = Inr [(''newest'', ''-created'')] \<and>
   get_available_facets roles_list_view = Inr [(''status'', ''active'')] \<and>
   get_sort_options users_list_view = Inr [(''email'', ''email'')] \<and>
   get_available_facets users_list_view = Inr [(''role'', ''admin'')]"
proof -
  have a: "resource (cls roles_list_view) = Some users_resource"
          "sort_options (cls roles_list_view) = []"
          "available_facets (cls roles_list_view) = []"
    by (simp_all add: resource_sample_defs)
  have b: "sort_options (cls users_list_view) = [(''email'', ''email'')]"
          "available_facets (cls users_list_view) = [(''role'', ''admin'')]"
    by (simp_all add: resource_sample_defs)
  have c: "search_sort_options users_resource = [(''newest'', ''-created'')]"
          "search_facets users_resource = [(''status'', ''active'')]"
    by (simp_all add: users_resource_def)
  show ?thesis
    using fallback_spec [of roles_list_view] fallback_spec [of users_list_view] a b c
    by simp
qed


section \<open>Registering a view\<close>

text \<open>
  C8, as the code has it: every call of \<^verbatim>\<open>add_view\<close> appends the callable to the list of
  views, which grows by one and keeps its earlier entries in their order. When the
  blueprint accepts the rule (the name of the callable has no dot), the call adds to the
  blueprint the rule that binds the URL of the view instance to the callable and passes
  the view instance to the menu; when the blueprint refuses it, the exception of
  \<^verbatim>\<open>add_url_rule\<close> reaches the caller, and blueprint and menu are as before.
\<close>

theorem add_view_spec:
  "views (registry_after (add_view func_name add_view_to_menu view view_instance adm))
     = views adm @ [view] \<and>
   length (views (registry_after (add_view func_name add_view_to_menu view view_instance adm)))
     = Suc (length (views adm)) \<and>
   take (length (views adm))
        (views (registry_after (add_view func_name add_view_to_menu view view_instance adm)))
     = views adm \<and>
   (CHR ''.'' \<notin> set (func_name view) \<longrightarrow>
      add_view func_name add_view_to_menu view view_instance adm
        = Inr (adm\<lparr>views := views adm @ [view],
                   blueprint := (blueprint adm)
                     \<lparr>url_rules := url_rules (blueprint adm) @ [(url view_instance, view)]\<rparr>,
                   menu := add_view_to_menu view_instance (menu adm)\<rparr>)) \<and>
   (CHR ''.'' \<in> set (func_name view) \<longrightarrow>
      add_view func_name add_view_to_menu view view_instance adm
        = Inl (ValueError ''view_func name may not contain a dot'',
               adm\<lparr>views := views adm @ [view]\<rparr>))"
  by (simp add: add_view_def add_url_rule_def registry_after_def Let_def)

text \<open>
  C8, witness: the users list view added to the sample registry that already holds the
  dashboard, under the name \<open>users\<close> and under the name \<open>users.list\<close>.
\<close>

theorem add_view_witness:
  "add_view id sample_add_view_to_menu ''users'' users_list_view dashboard_admin
     = Inr (dashboard_admin
              \<lparr>views := [''dashboard'', ''users''],
               blueprint := \<lparr>bp_name = ''administration'', url_prefix = ''/administration'',
                             url_rules = [(Some ''/'', ''dashboard''),
                                          (Some ''/users'', ''users'')]\<rparr>,
               menu := [''administration.dashboard'', ''administration.users'']\<rparr>) \<and>
   add_view id sample_add_view_to_menu ''users.list'' users_list_view dashboard_admin
     = Inl (ValueError ''view_func name may not contain a dot'',
            dashboard_admin\<lparr>views := [''dashboard'', ''users.list'']\<rparr>)"
proof -
  have a: "views dashboard_admin = [''dashboard'']"
          "blueprint dashboard_admin
             = \<lparr>bp_name = ''administration'', url_prefix = ''/administration'',
                url_rules = [(Some ''/'', ''dashboard'')]\<rparr>"
          "menu dashboard_admin = [''administration.dashboard'']"
    by (simp_all add: dashboard_admin_def sample_defs)
  have b: "url users_list_view = Some ''/users''"
          "sample_add_view_to_menu users_list_view [''administration.dashboard'']
             = [''administration.dashboard'', ''administration.users'']"
    by (simp_all add: sample_add_view_to_menu_def endpoint_location_name_def
        users_list_view_def sample_defs)
  have c: "CHR ''.'' \<notin> set (id ''users'')" "CHR ''.'' \<in> set (id ''users.list'')"
    by simp_all
  show ?thesis
    using add_view_spec [of id sample_add_view_to_menu "''users''" users_list_view dashboard_admin]
      add_view_spec [of id sample_add_view_to_menu "''users.list''" users_list_view dashboard_admin]
      a b c
    by simp
qed

text \<open>
  C8, as the spec states it, fails: the call with a callable named \<open>users.list\<close> raises
  after the callable has been appended; no rule is added to the blueprint and the view
  instance does not reach the menu.
\<close>

theorem add_view_counterexample:
  "isl (add_view id sample_add_view_to_menu ''users.list'' users_list_view dashboard_admin) \<and>
   views (registry_after
            (add_view id sample_add_view_to_menu ''users.list'' users_list_view dashboard_admin))
     = [''dashboard'', ''users.list''] \<and>
   url_rules (blueprint (registry_after
            (add_view id sample_add_view_to_menu ''users.list'' users_list_view dashboard_admin)))
     = [(Some ''/'', ''dashboard'')] \<and>
   menu (registry_after
            (add_view id sample_add_view_to_menu ''users.list'' users_list_view dashboard_admin))
     = [''administration.dashboard'']"
  by (simp add: add_view_def add_url_rule_def registry_after_def Let_def
      dashboard_admin_def sample_defs)

end
